theory Spec2Isabelle
  imports Main
begin

section \<open>Python values shared by the mixins\<close>

text \<open>
  The mixins of \<^verbatim>\<open>adapter_transformers/mixins/bert.py\<close> read and assign attributes of
  module objects. An attribute of a Python object is in one of three states: it was never
  assigned (reading it raises \<^verbatim>\<open>AttributeError\<close>), it holds \<^verbatim>\<open>None\<close>, or it holds a
  value.
\<close>

datatype 'a attr = Unset | PyNone | Val 'a

datatype py_error = AttributeError | IndexError

text \<open>
  Module objects have an identity. A reference is the address of an object; the heap
  maps the addresses below \<open>next_ref\<close> to the linear layers that were allocated so far, and
  constructing an object takes the next address.
\<close>

type_synonym ref = nat

text \<open>
  Modelled from the spec: the class \<^verbatim>\<open>lora.Linear\<close> (imported as \<^verbatim>\<open>LoRALinear\<close>) is not
  part of the file. A plain linear layer has its input and output dimensions; the
  LoRA-augmented layer has the same two dimensions and carries the location, the
  attention-role key and the configuration it was wrapped with.
\<close>

datatype 'cfg linear =
    Linear (in_features: nat) (out_features: nat)
  | LoRALinear (in_features: nat) (out_features: nat)
      (location: string) (attn_key: "string option") (lora_config: 'cfg)

record 'cfg heap =
  cells :: "ref \<Rightarrow> 'cfg linear"
  next_ref :: ref

text \<open>
  Modelled from the spec: \<^verbatim>\<open>LoRALinear.wrap(layer, role, config, attn_key=...)\<close> is
  defined outside the file. It returns a new, capability-extended layer that retains the
  input and output dimensions of the layer it is given; the original object is left as
  it is and is discarded by the caller.
\<close>

definition LoRALinear_wrap ::
  "ref \<Rightarrow> string \<Rightarrow> 'cfg \<Rightarrow> string option \<Rightarrow> 'cfg heap \<Rightarrow> ref \<times> 'cfg heap" where
  "LoRALinear_wrap module location_key config attn h =
     (let new_module = LoRALinear (in_features (cells h module)) (out_features (cells h module))
                         location_key attn config
      in (next_ref h, h\<lparr>cells := (cells h)(next_ref h := new_module), next_ref := Suc (next_ref h)\<rparr>))"

section \<open>BertSelfAttentionAdaptersMixin\<close>

text \<open>
  The attributes of a self-attention module that \<^verbatim>\<open>init_adapters\<close> touches. The three
  projections are references to linear layers; \<^verbatim>\<open>location_key\<close> is a string, \<^verbatim>\<open>None\<close>
  or not assigned yet (it is assigned by the layer mixin below, not by this class).
\<close>

record ('lin, 'shim) bert_self_attention =
  self_query :: 'lin
  self_key :: 'lin
  self_value :: 'lin
  self_location_key :: "string attr"
  self_prefix_tuning :: "'shim attr"

text \<open>
  \<^verbatim>\<open>init_adapters\<close> of the self-attention mixin. The two collaborators defined outside
  the file are parameters: \<open>wrap\<close> is \<^verbatim>\<open>LoRALinear.wrap\<close>, which acts on the world \<open>w\<close> of
  module objects and returns the wrapped layer, and \<open>PrefixTuningShim\<close> is the
  constructor of the shim. The result is the exception raised, if any, with the state
  of the module and of the world at that moment: the three assignments of lines 28-30
  have taken place when line 32 reads \<^verbatim>\<open>self.location_key\<close>.
\<close>

definition BertSelfAttention_init_adapters ::
  "('lin \<Rightarrow> string \<Rightarrow> 'cfg \<Rightarrow> string option \<Rightarrow> 'w \<Rightarrow> 'lin \<times> 'w) \<Rightarrow>
   (string option \<Rightarrow> 'cfg \<Rightarrow> 'shim) \<Rightarrow> 'cfg \<Rightarrow>
   ('lin, 'shim) bert_self_attention \<Rightarrow> 'w \<Rightarrow>
   py_error option \<times> ('lin, 'shim) bert_self_attention \<times> 'w" where
  "BertSelfAttention_init_adapters wrap PrefixTuningShim config self w =
     (let (q, w1) = wrap (self_query self) ''selfattn'' config (Some ''q'') w;
          self1 = self\<lparr>self_query := q\<rparr>;
          (k, w2) = wrap (self_key self1) ''selfattn'' config (Some ''k'') w1;
          self2 = self1\<lparr>self_key := k\<rparr>;
          (v, w3) = wrap (self_value self2) ''selfattn'' config (Some ''v'') w2;
          self3 = self2\<lparr>self_value := v\<rparr>
      in case self_location_key self3 of
           Unset \<Rightarrow> (Some AttributeError, self3, w3)
         | PyNone \<Rightarrow>
             (None, self3\<lparr>self_prefix_tuning := Val (PrefixTuningShim None config)\<rparr>, w3)
         | Val s \<Rightarrow>
             (None,
              self3\<lparr>self_prefix_tuning :=
                Val (PrefixTuningShim (if s \<noteq> [] then Some (s @ ''_prefix'') else None) config)\<rparr>,
              w3))"

section \<open>BertSelfOutputAdaptersMixin and BertOutputAdaptersMixin\<close>

text \<open>
  Both classes extend \<^verbatim>\<open>AdapterLayer\<close>, the generic per-layer adapter container. The
  attribute this file assigns is \<^verbatim>\<open>location_key\<close>; what else the container keeps is the
  extension of the record.
\<close>

record adapter_layer =
  location_key :: "string attr"

text \<open>
  \<^verbatim>\<open>init_adapters\<close> of the two mixins (lines 42-44 and 54-56): the fixed key is
  assigned, then \<^verbatim>\<open>super().init_adapters(config)\<close> runs on the object. The inherited
  method is the parameter \<open>super_init_adapters\<close>; its result is the result of the call.
\<close>

definition BertSelfOutput_init_adapters ::
  "('cfg \<Rightarrow> 'a adapter_layer_scheme \<Rightarrow> 'r) \<Rightarrow> 'cfg \<Rightarrow> 'a adapter_layer_scheme \<Rightarrow> 'r" where
  "BertSelfOutput_init_adapters super_init_adapters config self =
     super_init_adapters config (self\<lparr>location_key := Val ''mh_adapter''\<rparr>)"

definition BertOutput_init_adapters ::
  "('cfg \<Rightarrow> 'a adapter_layer_scheme \<Rightarrow> 'r) \<Rightarrow> 'cfg \<Rightarrow> 'a adapter_layer_scheme \<Rightarrow> 'r" where
  "BertOutput_init_adapters super_init_adapters config self =
     super_init_adapters config (self\<lparr>location_key := Val ''output_adapter''\<rparr>)"

text \<open>
  The generic container, as far as the spec describes it: besides the location key it
  keeps what it selected by the key, the key it read and the configuration.
\<close>

record 'cfg adapter_container = adapter_layer +
  selected_config :: "(string attr \<times> 'cfg) attr"

text \<open>
  Modelled from the spec: \<^verbatim>\<open>AdapterLayer.init_adapters(config)\<close>, the generic
  container's own initialization, is defined outside the file. The spec gives its
  precondition, that the location key is set before it runs, and the use it makes of
  the key, to select configuration: the container reads the key (an unset attribute
  raises), keeps the key with the configuration it selected from, and does not assign
  the key.
\<close>

definition AdapterLayer_init_adapters ::
  "'cfg \<Rightarrow> 'cfg adapter_container \<Rightarrow> py_error option \<times> 'cfg adapter_container" where
  "AdapterLayer_init_adapters config self =
     (case location_key self of
        Unset \<Rightarrow> (Some AttributeError, self)
      | _ \<Rightarrow> (None, self\<lparr>selected_config := Val (location_key self, config)\<rparr>))"

section \<open>BertLayerAdaptersMixin\<close>

text \<open>
  The attributes of a layer that \<^verbatim>\<open>init_adapters\<close> touches: the two dense sublayers
  (\<^verbatim>\<open>self.intermediate.dense\<close>, \<^verbatim>\<open>self.output.dense\<close>), the self-attention module
  \<^verbatim>\<open>self.attention.self\<close>, the flag \<^verbatim>\<open>self.add_cross_attention\<close> and the module
  \<^verbatim>\<open>self.crossattention.self\<close>, which a layer without cross-attention does not have.
  The two attention modules are held by reference: lines 68 and 70 assign to an
  attribute of the object that the reference leads to, and nothing in the file keeps the
  two references apart.
\<close>

record 'lin bert_layer =
  intermediate_dense :: 'lin
  output_dense :: 'lin
  attention_self :: ref
  add_cross_attention :: bool
  crossattention_self :: "ref attr"

text \<open>The self-attention module objects, by address.\<close>

type_synonym ('lin, 'shim) attention_modules = "ref \<Rightarrow> ('lin, 'shim) bert_self_attention"

text \<open>The assignment \<^verbatim>\<open>module.location_key = key\<close> to the module object at an address.\<close>

definition set_location_key ::
  "ref \<Rightarrow> string \<Rightarrow> ('lin, 'shim) attention_modules \<Rightarrow> ('lin, 'shim) attention_modules" where
  "set_location_key r k mods = mods(r := (mods r)\<lparr>self_location_key := Val k\<rparr>)"

text \<open>
  \<^verbatim>\<open>init_adapters\<close> of the layer mixin (lines 62-70). \<^verbatim>\<open>LoRALinear.wrap\<close> is called
  without an attention-role key for the two dense sublayers. With the flag set and no
  cross-attention module, line 70 raises after the assignments before it.
\<close>

definition BertLayer_init_adapters ::
  "('lin \<Rightarrow> string \<Rightarrow> 'cfg \<Rightarrow> string option \<Rightarrow> 'w \<Rightarrow> 'lin \<times> 'w) \<Rightarrow> 'cfg \<Rightarrow>
   'lin bert_layer \<Rightarrow> ('lin, 'shim) attention_modules \<Rightarrow> 'w \<Rightarrow>
   py_error option \<times> 'lin bert_layer \<times> ('lin, 'shim) attention_modules \<times> 'w" where
  "BertLayer_init_adapters wrap config self mods w =
     (let (d1, w1) = wrap (intermediate_dense self) ''intermediate'' config None w;
          self1 = self\<lparr>intermediate_dense := d1\<rparr>;
          (d2, w2) = wrap (output_dense self1) ''output'' config None w1;
          self2 = self1\<lparr>output_dense := d2\<rparr>;
          mods1 = set_location_key (attention_self self2) ''self'' mods
      in if add_cross_attention self2 then
           (case crossattention_self self2 of
              Val ca \<Rightarrow> (None, self2, set_location_key ca ''cross'' mods1, w2)
            | _ \<Rightarrow> (Some AttributeError, self2, mods1, w2))
         else (None, self2, mods1, w2))"

text \<open>The location key of the cross-attention module of a layer, when there is one.\<close>

definition cross_location_key ::
  "'lin bert_layer \<Rightarrow> ('lin, 'shim) attention_modules \<Rightarrow> string attr" where
  "cross_location_key self mods =
     (case crossattention_self self of Val ca \<Rightarrow> self_location_key (mods ca) | _ \<Rightarrow> Unset)"

section \<open>BertModelAdaptersMixin\<close>

text \<open>
  A forward-pre hook of a module is either the closure \<^verbatim>\<open>hook\<close> that
  \<^verbatim>\<open>_set_layer_hook_for_parallel\<close> creates, or some other callable, named by a number.
\<close>

datatype hook_fn = ParallelHook | OtherHook nat

text \<open>
  The model holds \<^verbatim>\<open>self.encoder.layer\<close>, the ordered collection of its layers, as
  references to the layer modules, and every module has its ordered collection of
  forward-pre hooks. Whatever else the model holds is the extension of the record.
\<close>

record bert_model =
  encoder_layer :: "ref list"
  forward_pre_hooks :: "ref \<Rightarrow> hook_fn list"

text \<open>
  \<^verbatim>\<open>enumerate\<close> counts from its start value; \<^verbatim>\<open>iter_layers\<close> (lines 90-92) yields its
  pairs one by one. The generator only reads the model, which is returned as it was.
\<close>

fun enumerate_from :: "nat \<Rightarrow> 'a list \<Rightarrow> (nat \<times> 'a) list" where
  "enumerate_from i [] = []"
| "enumerate_from i (x # xs) = (i, x) # enumerate_from (Suc i) xs"

definition iter_layers ::
  "'a bert_model_scheme \<Rightarrow> (nat \<times> ref) list \<times> 'a bert_model_scheme" where
  "iter_layers self = (enumerate_from 0 (encoder_layer self), self)"

text \<open>
  \<^verbatim>\<open>register_forward_pre_hook\<close> is PyTorch's: it adds the hook at the end of the
  module's collection of forward-pre hooks.
\<close>

definition register_forward_pre_hook ::
  "ref \<Rightarrow> hook_fn \<Rightarrow> 'a bert_model_scheme \<Rightarrow> 'a bert_model_scheme" where
  "register_forward_pre_hook layer f self =
     self\<lparr>forward_pre_hooks := (forward_pre_hooks self)(layer := forward_pre_hooks self layer @ [f])\<rparr>"

definition set_layer_hook_for_parallel ::
  "ref \<Rightarrow> 'a bert_model_scheme \<Rightarrow> 'a bert_model_scheme" where
  "set_layer_hook_for_parallel layer self = register_forward_pre_hook layer ParallelHook self"

text \<open>
  The objects a hook call works on: the tuples, by address, with their elements (a tuple
  is immutable), and the memory that holds the tensors.
\<close>

record ('v, 'mem) hook_heap =
  tuple_items :: "ref \<Rightarrow> 'v list"
  tensors :: 'mem

text \<open>
  The closure \<^verbatim>\<open>hook(module, input)\<close> of lines 84-86. \<open>input\<close> is the reference to the
  tuple of the positional arguments of the layer's call, and the value returned is a
  reference; \<open>adjust\<close> is \<^verbatim>\<open>adjust_tensors_for_parallel_\<close>, defined outside the file,
  which changes tensors in place: it acts on the memory that holds them. Subscripting a
  tuple beyond its length raises \<^verbatim>\<open>IndexError\<close>, before \<open>adjust\<close> is called.
\<close>

definition hook ::
  "('v \<Rightarrow> 'v \<Rightarrow> 'mem \<Rightarrow> 'mem) \<Rightarrow> 'module \<Rightarrow> ref \<Rightarrow> ('v, 'mem) hook_heap \<Rightarrow>
   (py_error + ref) \<times> ('v, 'mem) hook_heap" where
  "hook adjust module input h =
     (case tuple_items h input of
        [] \<Rightarrow> (Inl IndexError, h)
      | [a] \<Rightarrow> (Inl IndexError, h)
      | a # b # _ \<Rightarrow> (Inr input, h\<lparr>tensors := adjust a b (tensors h)\<rparr>))"

text \<open>
  What \<^verbatim>\<open>init_adapters\<close> of the model mixin does, in the order it does it: the call of
  the inherited \<^verbatim>\<open>init_adapters\<close>, and one registration of a forward-pre hook per pass
  of the loop.
\<close>

datatype 'cfg event = SuperInitAdapters 'cfg | RegisterForwardPreHook ref

text \<open>The loop of lines 80-81 over the pairs that \<^verbatim>\<open>iter_layers\<close> yields.\<close>

fun init_adapters_loop ::
  "(nat \<times> ref) list \<Rightarrow> 'cfg event list \<times> 'a bert_model_scheme \<Rightarrow>
   'cfg event list \<times> 'a bert_model_scheme" where
  "init_adapters_loop [] acc = acc"
| "init_adapters_loop ((_, layer) # rest) (trace, self) =
     init_adapters_loop rest
       (trace @ [RegisterForwardPreHook layer], set_layer_hook_for_parallel layer self)"

text \<open>
  \<^verbatim>\<open>init_adapters\<close> of the model mixin (lines 76-81). The inherited method, found
  along the bases \<^verbatim>\<open>EmbeddingAdaptersMixin\<close>, \<^verbatim>\<open>InvertibleAdaptersMixin\<close>,
  \<^verbatim>\<open>ModelBaseAdaptersMixin\<close>, is the parameter \<open>super_init_adapters\<close>: it may change the
  model in any way. The loop body leaves \<^verbatim>\<open>self.encoder.layer\<close> alone, so the pairs of
  the generator are those of the collection as the inherited call left it.
\<close>

definition BertModel_init_adapters ::
  "('cfg \<Rightarrow> 'a bert_model_scheme \<Rightarrow> 'a bert_model_scheme) \<Rightarrow> 'cfg \<Rightarrow>
   'a bert_model_scheme \<Rightarrow> 'cfg event list \<times> 'a bert_model_scheme" where
  "BertModel_init_adapters super_init_adapters config self =
     (let self1 = super_init_adapters config self;
          (pairs, self2) = iter_layers self1
      in init_adapters_loop pairs ([SuperInitAdapters config], self2))"

text \<open>The number of hooks of a layer that are the closure of \<^verbatim>\<open>_set_layer_hook_for_parallel\<close>.\<close>

definition parallel_hooks :: "'a bert_model_scheme \<Rightarrow> ref \<Rightarrow> nat" where
  "parallel_hooks self layer = count_list (forward_pre_hooks self layer) ParallelHook"

text \<open>Successive calls of \<^verbatim>\<open>init_adapters\<close> on one model, one per configuration.\<close>

fun init_adapters_calls ::
  "('cfg \<Rightarrow> 'a bert_model_scheme \<Rightarrow> 'a bert_model_scheme) \<Rightarrow> 'cfg list \<Rightarrow>
   'a bert_model_scheme \<Rightarrow> 'a bert_model_scheme" where
  "init_adapters_calls super_init_adapters [] self = self"
| "init_adapters_calls super_init_adapters (config # configs) self =
     init_adapters_calls super_init_adapters configs
       (snd (BertModel_init_adapters super_init_adapters config self))"

section \<open>Properties of the self-attention mixin\<close>

text \<open>
  The modelled \<^verbatim>\<open>LoRALinear.wrap\<close> returns the next free address, stores the wrapped
  layer there and leaves every allocated object as it is.
\<close>

lemma LoRALinear_wrap_fst: "fst (LoRALinear_wrap m loc cfg a h) = next_ref h"
  by (simp add: LoRALinear_wrap_def Let_def)

lemma LoRALinear_wrap_top: "next_ref (snd (LoRALinear_wrap m loc cfg a h)) = Suc (next_ref h)"
  by (simp add: LoRALinear_wrap_def Let_def)

lemma LoRALinear_wrap_cells_old:
  "r < next_ref h \<Longrightarrow> cells (snd (LoRALinear_wrap m loc cfg a h)) r = cells h r"
  by (simp add: LoRALinear_wrap_def Let_def)

lemma LoRALinear_wrap_cells_new:
  "cells (snd (LoRALinear_wrap m loc cfg a h)) (next_ref h) =
     LoRALinear (in_features (cells h m)) (out_features (cells h m)) loc a cfg"
  by (simp add: LoRALinear_wrap_def Let_def)

text \<open>
  For any \<^verbatim>\<open>LoRALinear.wrap\<close>, the three projections after the call are what \<open>wrap\<close>
  returned for the projections before it, called in the order query, key, value with
  the location \<^verbatim>\<open>"selfattn"\<close> and the keys \<^verbatim>\<open>"q"\<close>, \<^verbatim>\<open>"k"\<close>, \<^verbatim>\<open>"v"\<close>; this holds also
  when line 32 raises.
\<close>

lemma BertSelfAttention_init_adapters_wraps:
  "let (e, s', w') = BertSelfAttention_init_adapters wrap mk cfg s w;
       r1 = wrap (self_query s) ''selfattn'' cfg (Some ''q'') w;
       r2 = wrap (self_key s) ''selfattn'' cfg (Some ''k'') (snd r1);
       r3 = wrap (self_value s) ''selfattn'' cfg (Some ''v'') (snd r2)
   in self_query s' = fst r1 \<and> self_key s' = fst r2 \<and> self_value s' = fst r3 \<and> w' = snd r3"
  by (auto simp: BertSelfAttention_init_adapters_def Let_def case_prod_unfold split: attr.splits)

text \<open>
  Claim C1. After \<^verbatim>\<open>init_adapters\<close> of the self-attention mixin, with
  \<^verbatim>\<open>LoRALinear.wrap\<close> as the spec describes it, \<^verbatim>\<open>self.query\<close>, \<^verbatim>\<open>self.key\<close> and
  \<^verbatim>\<open>self.value\<close> are not the objects they were: each is an object allocated by the call,
  a LoRA layer wrapped with the location \<^verbatim>\<open>"selfattn"\<close> and the attention-role key
  \<^verbatim>\<open>"q"\<close>, \<^verbatim>\<open>"k"\<close>, \<^verbatim>\<open>"v"\<close>, with the input and output dimensions of the layer it
  replaces. The original objects are untouched. The three attributes are references to
  allocated objects before the call. All of this holds whether or not line 32 raises.
\<close>

theorem qkv_wrapped_by_LoRALinear:
  assumes "self_query s < next_ref h" and "self_key s < next_ref h"
    and "self_value s < next_ref h"
  shows "let (e, s', h') = BertSelfAttention_init_adapters LoRALinear_wrap mk cfg s h in
    self_query s' \<noteq> self_query s \<and> self_key s' \<noteq> self_key s \<and>
    self_value s' \<noteq> self_value s \<and>
    next_ref h \<le> self_query s' \<and> next_ref h \<le> self_key s' \<and> next_ref h \<le> self_value s' \<and>
    cells h' (self_query s') =
      LoRALinear (in_features (cells h (self_query s))) (out_features (cells h (self_query s)))
        ''selfattn'' (Some ''q'') cfg \<and>
    cells h' (self_key s') =
      LoRALinear (in_features (cells h (self_key s))) (out_features (cells h (self_key s)))
        ''selfattn'' (Some ''k'') cfg \<and>
    cells h' (self_value s') =
      LoRALinear (in_features (cells h (self_value s))) (out_features (cells h (self_value s)))
        ''selfattn'' (Some ''v'') cfg \<and>
    cells h' (self_query s) = cells h (self_query s) \<and>
    cells h' (self_key s) = cells h (self_key s) \<and>
    cells h' (self_value s) = cells h (self_value s)"
  using assms
  by (auto simp: BertSelfAttention_init_adapters_def LoRALinear_wrap_def Let_def split: attr.splits)

theorem qkv_wrapped_by_LoRALinear_witness:
  "(let s = \<lparr>self_query = 0, self_key = 1, self_value = 2, self_location_key = Val ''self'',
              self_prefix_tuning = Unset\<rparr>;
        h = \<lparr>cells = (\<lambda>r. if r = 2 then Linear 768 64 else Linear 768 768), next_ref = 3\<rparr>;
        (e, s', h') = BertSelfAttention_init_adapters LoRALinear_wrap Pair (7::nat) s h
    in self_query s < next_ref h \<and> self_key s < next_ref h \<and> self_value s < next_ref h \<and>
       e = None \<and> self_query s' = 3 \<and> self_key s' = 4 \<and> self_value s' = 5 \<and>
       cells h' 3 = LoRALinear 768 768 ''selfattn'' (Some ''q'') 7 \<and>
       cells h' 5 = LoRALinear 768 64 ''selfattn'' (Some ''v'') 7 \<and>
       cells h' 0 = Linear 768 768)"
  using qkv_wrapped_by_LoRALinear
    [of "\<lparr>self_query = 0, self_key = 1, self_value = 2, self_location_key = Val ''self'',
              self_prefix_tuning = Unset\<rparr>"
        "\<lparr>cells = (\<lambda>r. if r = 2 then Linear 768 64 else Linear 768 768), next_ref = 3\<rparr>"
        Pair "7::nat"]
  by (simp add: BertSelfAttention_init_adapters_def LoRALinear_wrap_def Let_def)

text \<open>
  Claim C2. After \<^verbatim>\<open>init_adapters\<close> of the self-attention mixin, when
  \<^verbatim>\<open>self.location_key\<close> is truthy (a non-empty string \<open>k\<close>) the call returns and
  \<^verbatim>\<open>self.prefix_tuning\<close> holds the shim constructed with the composite key
  \<open>k\<close> followed by \<^verbatim>\<open>"_prefix"\<close>; when the base key is absent (\<^verbatim>\<open>None\<close>) it holds the
  shim constructed with no key.
\<close>

theorem prefix_tuning_shim_key:
  "let (e, s', w') = BertSelfAttention_init_adapters wrap mk cfg s w in
     (\<forall>k. self_location_key s = Val k \<and> k \<noteq> [] \<longrightarrow>
        e = None \<and> self_prefix_tuning s' = Val (mk (Some (k @ ''_prefix'')) cfg)) \<and>
     (self_location_key s = PyNone \<longrightarrow>
        e = None \<and> self_prefix_tuning s' = Val (mk None cfg))"
  by (auto simp: BertSelfAttention_init_adapters_def Let_def case_prod_unfold split: attr.splits)

theorem prefix_tuning_shim_key_witness:
  "(let s1 = \<lparr>self_query = 0, self_key = 1, self_value = 2, self_location_key = Val ''self'',
              self_prefix_tuning = Unset\<rparr>;
        s2 = s1\<lparr>self_location_key := PyNone\<rparr>;
        h = \<lparr>cells = (\<lambda>r. Linear 768 768), next_ref = 3\<rparr>;
        (e1, s1', h1) = BertSelfAttention_init_adapters LoRALinear_wrap Pair (7::nat) s1 h;
        (e2, s2', h2) = BertSelfAttention_init_adapters LoRALinear_wrap Pair (7::nat) s2 h
    in self_location_key s1 = Val ''self'' \<and> ''self'' \<noteq> [] \<and> e1 = None \<and>
       self_prefix_tuning s1' = Val (Some ''self_prefix'', 7) \<and>
       self_location_key s2 = PyNone \<and> e2 = None \<and> self_prefix_tuning s2' = Val (None, 7))"
  using prefix_tuning_shim_key
    [of LoRALinear_wrap Pair "7::nat"
        "\<lparr>self_query = 0, self_key = 1, self_value = 2, self_location_key = Val ''self'',
              self_prefix_tuning = Unset\<rparr>"
        "\<lparr>cells = (\<lambda>r. Linear 768 768), next_ref = 3\<rparr>"]
    prefix_tuning_shim_key
    [of LoRALinear_wrap Pair "7::nat"
        "\<lparr>self_query = 0, self_key = 1, self_value = 2, self_location_key = PyNone,
              self_prefix_tuning = Unset\<rparr>"
        "\<lparr>cells = (\<lambda>r. Linear 768 768), next_ref = 3\<rparr>"]
  by (simp add: BertSelfAttention_init_adapters_def LoRALinear_wrap_def Let_def)

text \<open>
  Claim C8. When \<^verbatim>\<open>self.location_key\<close> is falsy (\<^verbatim>\<open>None\<close> or the empty string), the
  call returns and \<^verbatim>\<open>self.prefix_tuning\<close> holds the object that the constructor
  \<^verbatim>\<open>PrefixTuningShim\<close> built for the key \<^verbatim>\<open>None\<close>: the attribute is assigned, whatever it
  held, and is not \<^verbatim>\<open>None\<close>.
\<close>

theorem prefix_tuning_shim_when_falsy:
  assumes "self_location_key s = PyNone \<or> self_location_key s = Val []"
  shows "let (e, s', w') = BertSelfAttention_init_adapters wrap mk cfg s w in
     e = None \<and> self_prefix_tuning s' = Val (mk None cfg) \<and>
     self_prefix_tuning s' \<noteq> PyNone \<and> self_prefix_tuning s' \<noteq> Unset"
  using assms
  by (auto simp: BertSelfAttention_init_adapters_def Let_def case_prod_unfold split: attr.splits)

theorem prefix_tuning_shim_when_falsy_witness:
  "(let s = \<lparr>self_query = 0, self_key = 1, self_value = 2, self_location_key = Val [],
              self_prefix_tuning = PyNone\<rparr>;
        h = \<lparr>cells = (\<lambda>r. Linear 768 768), next_ref = 3\<rparr>;
        (e, s', h') = BertSelfAttention_init_adapters LoRALinear_wrap Pair (7::nat) s h
    in (self_location_key s = PyNone \<or> self_location_key s = Val []) \<and>
       e = None \<and> self_prefix_tuning s' = Val (None, 7))"
  using prefix_tuning_shim_when_falsy
    [of "\<lparr>self_query = 0, self_key = 1, self_value = 2, self_location_key = Val [],
              self_prefix_tuning = PyNone\<rparr>" LoRALinear_wrap Pair "7::nat"
        "\<lparr>cells = (\<lambda>r. Linear 768 768), next_ref = 3\<rparr>"]
  by (simp add: BertSelfAttention_init_adapters_def LoRALinear_wrap_def Let_def)

section \<open>Properties of the model mixin\<close>

subsection \<open>The generator and the loop\<close>

lemma enumerate_from_zip: "enumerate_from i xs = zip [i..<i + length xs] xs"
proof (induction xs arbitrary: i)
  case Nil
  then show ?case by simp
next
  case (Cons x xs)
  have "[i..<i + length (x # xs)] = i # [Suc i..<Suc i + length xs]"
    by (simp add: upt_rec)
  with Cons show ?case by simp
qed

lemma map_fst_enumerate_from: "map fst (enumerate_from i xs) = [i..<i + length xs]"
  by (simp add: enumerate_from_zip)

lemma map_snd_enumerate_from: "map snd (enumerate_from i xs) = xs"
  by (simp add: enumerate_from_zip)

lemma encoder_layer_set_layer_hook:
  "encoder_layer (set_layer_hook_for_parallel l m) = encoder_layer m"
  by (simp add: set_layer_hook_for_parallel_def register_forward_pre_hook_def)

lemma forward_pre_hooks_set_layer_hook:
  "forward_pre_hooks (set_layer_hook_for_parallel l m) l' =
     (if l' = l then forward_pre_hooks m l @ [ParallelHook] else forward_pre_hooks m l')"
  by (simp add: set_layer_hook_for_parallel_def register_forward_pre_hook_def)

lemma init_adapters_loop_trace:
  "fst (init_adapters_loop ps (tr, m)) = tr @ map RegisterForwardPreHook (map snd ps)"
  by (induction ps "(tr, m)" arbitrary: tr m rule: init_adapters_loop.induct) simp_all

lemma init_adapters_loop_encoder_layer:
  "encoder_layer (snd (init_adapters_loop ps (tr, m))) = encoder_layer m"
  by (induction ps "(tr, m)" arbitrary: tr m rule: init_adapters_loop.induct)
     (simp_all add: encoder_layer_set_layer_hook)

lemma init_adapters_loop_hooks:
  "forward_pre_hooks (snd (init_adapters_loop ps (tr, m))) l =
     forward_pre_hooks m l @ replicate (count_list (map snd ps) l) ParallelHook"
  by (induction ps "(tr, m)" arbitrary: tr m rule: init_adapters_loop.induct)
     (simp_all add: forward_pre_hooks_set_layer_hook replicate_append_same)

lemma count_list_replicate: "count_list (replicate n x) y = (if x = y then n else 0)"
  by (induction n) auto

lemma count_list_distinct: "distinct xs \<Longrightarrow> x \<in> set xs \<Longrightarrow> count_list xs x = 1"
  by (induction xs) auto

lemma count_list_map_inj: "inj f \<Longrightarrow> count_list (map f xs) (f x) = count_list xs x"
  by (induction xs) (auto dest: injD)

text \<open>
  One call of \<^verbatim>\<open>init_adapters\<close>: its events, the layer collection it leaves, and the
  hooks it leaves on a module. A module that stands \<open>k\<close> times in the collection is
  visited \<open>k\<close> times by the loop.
\<close>

lemma BertModel_init_adapters_trace:
  "fst (BertModel_init_adapters super cfg m) =
     SuperInitAdapters cfg # map RegisterForwardPreHook (encoder_layer (super cfg m))"
  by (simp add: BertModel_init_adapters_def iter_layers_def Let_def init_adapters_loop_trace
      map_snd_enumerate_from)

lemma BertModel_init_adapters_encoder_layer:
  "encoder_layer (snd (BertModel_init_adapters super cfg m)) = encoder_layer (super cfg m)"
  by (simp add: BertModel_init_adapters_def iter_layers_def Let_def
      init_adapters_loop_encoder_layer)

lemma BertModel_init_adapters_hooks:
  "forward_pre_hooks (snd (BertModel_init_adapters super cfg m)) l =
     forward_pre_hooks (super cfg m) l @
       replicate (count_list (encoder_layer (super cfg m)) l) ParallelHook"
  by (simp add: BertModel_init_adapters_def iter_layers_def Let_def init_adapters_loop_hooks
      map_snd_enumerate_from)

lemma BertModel_init_adapters_parallel_hooks:
  "parallel_hooks (snd (BertModel_init_adapters super cfg m)) l =
     parallel_hooks (super cfg m) l + count_list (encoder_layer (super cfg m)) l"
  by (simp add: parallel_hooks_def BertModel_init_adapters_hooks count_list_replicate)

lemma init_adapters_calls_parallel_hooks:
  assumes "\<forall>c m. encoder_layer (super c m) = encoder_layer m \<and>
                 (\<forall>l. parallel_hooks (super c m) l = parallel_hooks m l)"
  shows "encoder_layer (init_adapters_calls super cfgs self) = encoder_layer self \<and>
     parallel_hooks (init_adapters_calls super cfgs self) l =
       parallel_hooks self l + length cfgs * count_list (encoder_layer self) l"
  using assms
  by (induction cfgs arbitrary: self)
     (simp_all add: BertModel_init_adapters_parallel_hooks BertModel_init_adapters_encoder_layer)

subsection \<open>The claims about the model mixin\<close>

text \<open>
  Claim C5. \<^verbatim>\<open>iter_layers()\<close> yields the pairs of an index and a layer with the indices
  ascending from 0 and the layers in the order of \<^verbatim>\<open>self.encoder.layer\<close>; it leaves the
  model as it was, and a second call yields the same sequence.
\<close>

theorem iter_layers_enumerates:
  "let (pairs, self') = iter_layers self in
     map fst pairs = [0..<length (encoder_layer self)] \<and>
     map snd pairs = encoder_layer self \<and>
     pairs = zip [0..<length (encoder_layer self)] (encoder_layer self) \<and>
     self' = self \<and> fst (iter_layers self') = pairs"
  by (simp add: iter_layers_def enumerate_from_zip)

text \<open>
  Claim C7. \<^verbatim>\<open>init_adapters\<close> of the model mixin makes one call of the inherited
  \<^verbatim>\<open>init_adapters\<close>, and it is the first thing it does; every registration of a hook
  comes after it, one per layer of the collection as the inherited call returned it, in
  the order of the collection. The hooks are added behind whatever the inherited call
  left in a module's collection of forward-pre hooks.
\<close>

theorem super_init_precedes_hook_registration:
  "let (trace, self') = BertModel_init_adapters super cfg self; self1 = super cfg self in
     trace = SuperInitAdapters cfg # map RegisterForwardPreHook (encoder_layer self1) \<and>
     hd trace = SuperInitAdapters cfg \<and>
     (\<forall>c. SuperInitAdapters c \<notin> set (tl trace)) \<and>
     encoder_layer self' = encoder_layer self1 \<and>
     (\<forall>l. forward_pre_hooks self' l =
        forward_pre_hooks self1 l @ replicate (count_list (encoder_layer self1) l) ParallelHook)"
  using BertModel_init_adapters_trace [of super cfg self]
    BertModel_init_adapters_encoder_layer [of super cfg self]
    BertModel_init_adapters_hooks [of super cfg self]
  by (auto simp: case_prod_unfold Let_def)

text \<open>
  Claim C6, as stated: it fails for a model whose layer collection holds one module
  twice. The loop registers once per position of the collection, so after a single call
  on a model without any alignment hook that module has two.
\<close>

theorem shared_layer_two_hooks_counterexample:
  "(let m = \<lparr>encoder_layer = [10, 10], forward_pre_hooks = (\<lambda>l. [])\<rparr>;
        (trace, m') = BertModel_init_adapters (\<lambda>c s. s) (7::nat) m
    in parallel_hooks m 10 = 0 \<and>
       fst (iter_layers m') = [(0, 10), (1, 10)] \<and>
       forward_pre_hooks m' 10 = [ParallelHook, ParallelHook] \<and>
       parallel_hooks m' 10 = 2 \<and> parallel_hooks m' 10 \<noteq> 1 \<and>
       count_list trace (RegisterForwardPreHook 10) = 2)"
  by (simp add: BertModel_init_adapters_def iter_layers_def Let_def parallel_hooks_def
      set_layer_hook_for_parallel_def register_forward_pre_hook_def)

text \<open>
  Claim C6, amended. After a single call of \<^verbatim>\<open>init_adapters\<close> on a model whose layer
  collection holds pairwise distinct modules, every layer that \<^verbatim>\<open>iter_layers()\<close> yields
  has exactly one forward-pre hook for the alignment of parallel composition: the layers
  yielded are all the layers of the collection, each is registered exactly once by the
  call and gains exactly one such hook, so a layer with no such hook when the inherited
  initialization returns has exactly one afterwards.
\<close>

theorem one_parallel_hook_per_layer:
  assumes "distinct (encoder_layer (super cfg self))"
  shows "let (trace, self') = BertModel_init_adapters super cfg self in
     map snd (fst (iter_layers self')) = encoder_layer (super cfg self) \<and>
     (\<forall>(i, l) \<in> set (fst (iter_layers self')).
        count_list trace (RegisterForwardPreHook l) = 1 \<and>
        parallel_hooks self' l = parallel_hooks (super cfg self) l + 1 \<and>
        (parallel_hooks (super cfg self) l = 0 \<longrightarrow> parallel_hooks self' l = 1))"
proof -
  let ?m1 = "super cfg self"
  let ?r = "BertModel_init_adapters super cfg self"
  have layers: "map snd (fst (iter_layers (snd ?r))) = encoder_layer ?m1"
    by (simp add: iter_layers_def map_snd_enumerate_from BertModel_init_adapters_encoder_layer)
  have one: "count_list (fst ?r) (RegisterForwardPreHook l) = 1 \<and>
             parallel_hooks (snd ?r) l = parallel_hooks ?m1 l + 1"
    if "l \<in> set (encoder_layer ?m1)" for l
  proof -
    have c: "count_list (encoder_layer ?m1) l = 1"
      using assms that by (rule count_list_distinct)
    have "inj RegisterForwardPreHook" by (simp add: inj_def)
    then have "count_list (map RegisterForwardPreHook (encoder_layer ?m1)) (RegisterForwardPreHook l) = 1"
      using c count_list_map_inj [of RegisterForwardPreHook "encoder_layer ?m1" l] by simp
    then have "count_list (fst ?r) (RegisterForwardPreHook l) = 1"
      by (simp add: BertModel_init_adapters_trace)
    moreover have "parallel_hooks (snd ?r) l = parallel_hooks ?m1 l + 1"
      using c by (simp add: BertModel_init_adapters_parallel_hooks)
    ultimately show ?thesis by simp
  qed
  have "\<forall>p \<in> set (fst (iter_layers (snd ?r))). snd p \<in> set (encoder_layer ?m1)"
    using layers by (metis imageI set_map)
  with one layers show ?thesis
    by (auto simp: case_prod_unfold)
qed

theorem one_parallel_hook_per_layer_witness:
  "(let m = \<lparr>encoder_layer = [10, 11, 12],
              forward_pre_hooks = (\<lambda>l. if l = 11 then [OtherHook 4] else [])\<rparr>;
        (trace, m') = BertModel_init_adapters (\<lambda>c s. s) (7::nat) m
    in distinct (encoder_layer m) \<and>
       parallel_hooks m 10 = 0 \<and> parallel_hooks m 11 = 0 \<and> parallel_hooks m 12 = 0 \<and>
       fst (iter_layers m') = [(0, 10), (1, 11), (2, 12)] \<and>
       parallel_hooks m' 10 = 1 \<and> parallel_hooks m' 11 = 1 \<and> parallel_hooks m' 12 = 1 \<and>
       count_list trace (RegisterForwardPreHook 11) = 1 \<and>
       forward_pre_hooks m' 11 = [OtherHook 4, ParallelHook])"
  using one_parallel_hook_per_layer
    [of "\<lambda>c s. s" "7::nat"
        "\<lparr>encoder_layer = [10, 11, 12],
              forward_pre_hooks = (\<lambda>l. if l = 11 then [OtherHook 4] else [])\<rparr>"]
  by (simp add: BertModel_init_adapters_def iter_layers_def Let_def parallel_hooks_def
      set_layer_hook_for_parallel_def register_forward_pre_hook_def)

text \<open>
  Claim C10, as stated: it fails for a model whose layer collection holds one module
  twice, which carries four alignment hooks after two calls, not two.
\<close>

theorem shared_layer_calls_counterexample:
  "(let m = \<lparr>encoder_layer = [10, 10], forward_pre_hooks = (\<lambda>l. [])\<rparr>;
        m2 = init_adapters_calls (\<lambda>c s. s) [7::nat, 7] m
    in parallel_hooks m 10 = 0 \<and> length [7::nat, 7] = 2 \<and>
       encoder_layer m2 = [10, 10] \<and>
       parallel_hooks m2 10 = 4 \<and> parallel_hooks m2 10 \<noteq> 2)"
  by (simp add: BertModel_init_adapters_def iter_layers_def Let_def parallel_hooks_def
      set_layer_hook_for_parallel_def register_forward_pre_hook_def)

text \<open>
  Claim C10, amended. \<^verbatim>\<open>init_adapters\<close> of the model mixin is not idempotent: on a
  model whose layer collection holds pairwise distinct modules, every call adds one more
  alignment hook to each layer, so after \<open>n\<close> calls a layer that had none carries \<open>n\<close>
  of them. The inherited initialization, which is not part of the file, is taken to
  leave the layer collection and the alignment hooks of every module as they are.
\<close>

theorem init_adapters_not_idempotent:
  assumes "\<forall>c m. encoder_layer (super c m) = encoder_layer m \<and>
                 (\<forall>l. parallel_hooks (super c m) l = parallel_hooks m l)"
    and "distinct (encoder_layer self)"
    and "l \<in> set (encoder_layer self)"
  shows "parallel_hooks (init_adapters_calls super configs self) l =
           parallel_hooks self l + length configs \<and>
         (parallel_hooks self l = 0 \<longrightarrow>
            parallel_hooks (init_adapters_calls super configs self) l = length configs)"
  using init_adapters_calls_parallel_hooks [OF assms(1), of configs self l]
    count_list_distinct [OF assms(2,3)]
  by simp

theorem init_adapters_not_idempotent_witness:
  "(let m = \<lparr>encoder_layer = [10, 11], forward_pre_hooks = (\<lambda>l. [])\<rparr>;
        m1 = init_adapters_calls (\<lambda>c s. s) [7::nat] m;
        m3 = init_adapters_calls (\<lambda>c s. s) [7::nat, 7, 8] m
    in (\<forall>c s. encoder_layer ((\<lambda>c s. s) (c::nat) (s::bert_model)) = encoder_layer s \<and>
               (\<forall>l. parallel_hooks ((\<lambda>c s. s) c s) l = parallel_hooks s l)) \<and>
       distinct (encoder_layer m) \<and> 11 \<in> set (encoder_layer m) \<and> parallel_hooks m 11 = 0 \<and>
       parallel_hooks m1 11 = 1 \<and> parallel_hooks m3 11 = 3 \<and>
       forward_pre_hooks m3 11 = [ParallelHook, ParallelHook, ParallelHook])"
  using init_adapters_not_idempotent
    [of "\<lambda>c s. s" "\<lparr>encoder_layer = [10, 11], forward_pre_hooks = (\<lambda>l. [])\<rparr>" 11
        "[7::nat, 7, 8]"]
  by (simp add: BertModel_init_adapters_def iter_layers_def Let_def parallel_hooks_def
      set_layer_hook_for_parallel_def register_forward_pre_hook_def)

subsection \<open>The forward-pre hook\<close>

text \<open>
  Claim C9, as stated, for every input tuple: it fails on a tuple of one element, where
  \<^verbatim>\<open>input[1]\<close> raises \<^verbatim>\<open>IndexError\<close> and the hook returns nothing.
\<close>

theorem hook_short_tuple_counterexample:
  "(let h = \<lparr>tuple_items = (\<lambda>r. if r = 3 then [5::nat] else []), tensors = (\<lambda>t::nat. t)\<rparr>
    in hook (\<lambda>a b mem. mem(b := a)) (0::nat) 3 h = (Inl IndexError, h) \<and>
       fst (hook (\<lambda>a b mem. mem(b := a)) (0::nat) 3 h) \<noteq> Inr 3)"
  by (simp add: hook_def Let_def)

text \<open>
  Claim C9, amended. For every module and every input tuple of at least two elements,
  the hook returns the very tuple object it received, and the tuple has the elements it
  had; its only effect is that of \<^verbatim>\<open>adjust_tensors_for_parallel_\<close> on the first two
  elements, and the result does not depend on the module.
\<close>

theorem hook_returns_its_input:
  assumes "2 \<le> length (tuple_items h input)"
  shows "let (r, h') = hook adjust module input h in
     r = Inr input \<and> tuple_items h' = tuple_items h \<and>
     tensors h' = adjust (tuple_items h input ! 0) (tuple_items h input ! 1) (tensors h) \<and>
     hook adjust module' input h = (r, h')"
  using assms
  by (cases "tuple_items h input"; cases "tl (tuple_items h input)") (auto simp: hook_def)

theorem hook_returns_its_input_witness:
  "(let h = \<lparr>tuple_items = (\<lambda>r. if r = 3 then [5::nat, 3, 9] else []),
              tensors = (\<lambda>t::nat. t)\<rparr>;
        (r, h') = hook (\<lambda>a b mem. mem(b := a)) (0::nat) 3 h
    in 2 \<le> length (tuple_items h 3) \<and> r = Inr 3 \<and> r \<noteq> Inr 4 \<and>
       tuple_items h' 3 = [5, 3, 9] \<and> tensors h' = (\<lambda>t. t)(3 := 5))"
  using hook_returns_its_input
    [of "\<lparr>tuple_items = (\<lambda>r. if r = 3 then [5::nat, 3, 9] else []),
              tensors = (\<lambda>t::nat. t)\<rparr>" 3 "\<lambda>a b mem. mem(b := a)" "0::nat" "0::nat"]
  by (simp add: hook_def Let_def)

section \<open>Properties of the layer mixin\<close>

text \<open>
  Claim C3, as stated: it fails for a layer whose \<^verbatim>\<open>self.attention.self\<close> and
  \<^verbatim>\<open>self.crossattention.self\<close> are one module object. With the flag true, line 70
  assigns \<^verbatim>\<open>"cross"\<close> to the object that line 68 assigned \<^verbatim>\<open>"self"\<close> to, the call
  returns, and the location key of \<^verbatim>\<open>self.attention.self\<close> is \<^verbatim>\<open>"cross"\<close>.
\<close>

theorem shared_attention_module_counterexample:
  "(let a = \<lparr>self_query = 2, self_key = 3, self_value = 4, self_location_key = Unset,
              self_prefix_tuning = (Unset :: unit attr)\<rparr>;
        s = \<lparr>intermediate_dense = 0, output_dense = 1, attention_self = 20,
              add_cross_attention = True, crossattention_self = Val 20\<rparr>;
        h = \<lparr>cells = (\<lambda>r. Linear 768 3072), next_ref = 8\<rparr>;
        (e, s', mods', h') = BertLayer_init_adapters LoRALinear_wrap (7::nat) s (\<lambda>r. a) h
    in e = None \<and>
       self_location_key (mods' (attention_self s')) = Val ''cross'' \<and>
       self_location_key (mods' (attention_self s')) \<noteq> Val ''self'')"
  by (simp add: BertLayer_init_adapters_def LoRALinear_wrap_def set_location_key_def Let_def)

text \<open>
  Claim C3, amended. After \<^verbatim>\<open>init_adapters\<close> of the layer mixin on a layer whose
  \<^verbatim>\<open>self.attention.self\<close> and \<^verbatim>\<open>self.crossattention.self\<close> are distinct module objects,
  the location key of \<^verbatim>\<open>self.attention.self\<close> is \<^verbatim>\<open>"self"\<close>. With the flag
  \<^verbatim>\<open>add_cross_attention\<close> true the location key of \<^verbatim>\<open>self.crossattention.self\<close> is assigned
  \<^verbatim>\<open>"cross"\<close>; with the flag false the cross-attention module is left as it is, and a key
  that was unset stays unset. So, for a layer that has a cross-attention module whenever
  its flag is true and whose cross-attention key is not \<^verbatim>\<open>"cross"\<close> already, the key is
  \<^verbatim>\<open>"cross"\<close> after the call if and only if the flag is true.
\<close>

theorem layer_location_keys:
  assumes "crossattention_self s \<noteq> Val (attention_self s)"
  shows "let (e, s', mods', w') = BertLayer_init_adapters wrap cfg s mods w in
     attention_self s' = attention_self s \<and>
     crossattention_self s' = crossattention_self s \<and>
     self_location_key (mods' (attention_self s')) = Val ''self'' \<and>
     (add_cross_attention s \<longrightarrow>
        (\<forall>ca. crossattention_self s = Val ca \<longrightarrow>
           e = None \<and> cross_location_key s' mods' = Val ''cross'' \<and>
           mods' ca = (mods ca)\<lparr>self_location_key := Val ''cross''\<rparr>)) \<and>
     (\<not> add_cross_attention s \<longrightarrow>
        e = None \<and> cross_location_key s' mods' = cross_location_key s mods \<and>
        (\<forall>ca. crossattention_self s = Val ca \<longrightarrow> mods' ca = mods ca)) \<and>
     (cross_location_key s mods \<noteq> Val ''cross'' \<and>
      (add_cross_attention s \<longrightarrow> (\<exists>ca. crossattention_self s = Val ca)) \<longrightarrow>
        (cross_location_key s' mods' = Val ''cross'' \<longleftrightarrow> add_cross_attention s))"
  using assms
  by (auto simp: BertLayer_init_adapters_def cross_location_key_def set_location_key_def
      Let_def case_prod_unfold split: attr.splits)

theorem layer_location_keys_witness:
  "(let a = \<lparr>self_query = 2, self_key = 3, self_value = 4, self_location_key = Unset,
              self_prefix_tuning = (Unset :: unit attr)\<rparr>;
        mods = (\<lambda>r. a);
        s1 = \<lparr>intermediate_dense = 0, output_dense = 1, attention_self = 20,
               add_cross_attention = True, crossattention_self = Val 21\<rparr>;
        s2 = \<lparr>intermediate_dense = 0, output_dense = 1, attention_self = 20,
               add_cross_attention = False, crossattention_self = Val 21\<rparr>;
        h = \<lparr>cells = (\<lambda>r. Linear 768 3072), next_ref = 8\<rparr>;
        (e1, s1', mods1, h1) = BertLayer_init_adapters LoRALinear_wrap (7::nat) s1 mods h;
        (e2, s2', mods2, h2) = BertLayer_init_adapters LoRALinear_wrap (7::nat) s2 mods h
    in crossattention_self s1 \<noteq> Val (attention_self s1) \<and>
       add_cross_attention s1 \<and> cross_location_key s1 mods = Unset \<and> e1 = None \<and>
       self_location_key (mods1 20) = Val ''self'' \<and>
       self_location_key (mods1 21) = Val ''cross'' \<and>
       cross_location_key s1' mods1 = Val ''cross'' \<and>
       crossattention_self s2 \<noteq> Val (attention_self s2) \<and>
       \<not> add_cross_attention s2 \<and> e2 = None \<and>
       self_location_key (mods2 20) = Val ''self'' \<and>
       self_location_key (mods2 21) = Unset \<and> cross_location_key s2' mods2 = Unset)"
  using layer_location_keys
    [of "\<lparr>intermediate_dense = 0, output_dense = 1, attention_self = 20,
          add_cross_attention = True, crossattention_self = Val 21\<rparr>"
        LoRALinear_wrap "7::nat"
        "\<lambda>r. \<lparr>self_query = 2, self_key = 3, self_value = 4, self_location_key = Unset,
              self_prefix_tuning = (Unset :: unit attr)\<rparr>"
        "\<lparr>cells = (\<lambda>r. Linear 768 3072), next_ref = 8\<rparr>"]
    layer_location_keys
    [of "\<lparr>intermediate_dense = 0, output_dense = 1, attention_self = 20,
          add_cross_attention = False, crossattention_self = Val 21\<rparr>"
        LoRALinear_wrap "7::nat"
        "\<lambda>r. \<lparr>self_query = 2, self_key = 3, self_value = 4, self_location_key = Unset,
              self_prefix_tuning = (Unset :: unit attr)\<rparr>"
        "\<lparr>cells = (\<lambda>r. Linear 768 3072), next_ref = 8\<rparr>"]
  by (simp add: BertLayer_init_adapters_def LoRALinear_wrap_def cross_location_key_def
      set_location_key_def Let_def)

section \<open>Properties of the self-output and output mixins\<close>

text \<open>
  Claim C4. \<^verbatim>\<open>init_adapters\<close> of \<^verbatim>\<open>BertSelfOutputAdaptersMixin\<close> and of
  \<^verbatim>\<open>BertOutputAdaptersMixin\<close> hands to the inherited initialization an object whose
  location key is already the fixed literal, \<^verbatim>\<open>"mh_adapter"\<close> or \<^verbatim>\<open>"output_adapter"\<close>,
  whatever the configuration and whatever the key was. With the initialization of
  \<^verbatim>\<open>AdapterLayer\<close> as the spec describes it, the call returns, the container has read the
  fixed key, and the key is the fixed literal afterwards.
\<close>

theorem fixed_location_key_before_delegation:
  "BertSelfOutput_init_adapters super cfg s =
     super cfg (s\<lparr>location_key := Val ''mh_adapter''\<rparr>) \<and>
   BertOutput_init_adapters super cfg s =
     super cfg (s\<lparr>location_key := Val ''output_adapter''\<rparr>) \<and>
   (let (e, c') = BertSelfOutput_init_adapters AdapterLayer_init_adapters cfg' c in
      e = None \<and> location_key c' = Val ''mh_adapter'' \<and>
      selected_config c' = Val (Val ''mh_adapter'', cfg')) \<and>
   (let (e, c') = BertOutput_init_adapters AdapterLayer_init_adapters cfg' c in
      e = None \<and> location_key c' = Val ''output_adapter'' \<and>
      selected_config c' = Val (Val ''output_adapter'', cfg'))"
  by (simp add: BertSelfOutput_init_adapters_def BertOutput_init_adapters_def
      AdapterLayer_init_adapters_def)

end
